theory Spec2Isabelle
  imports Main
begin

section \<open>Data model\<close>

text \<open>
  The estimator base class \<^verbatim>\<open>FalkonBase\<close> of \<^verbatim>\<open>falkon/models/model_utils.py\<close>
  works on torch tensors. A tensor is a Python object (with an identity) that views a
  storage buffer through an offset, a shape and strides counted in elements. The buffers
  and the supply of object identities live in the interpreter state, which also collects
  the warnings issued through \<^verbatim>\<open>warnings.warn\<close>.
\<close>

datatype device = CPU | CUDA nat

datatype dtype = Float16 | Float32 | Float64 | Int32 | Int64

record tensor =
  obj_id :: nat
  storage :: nat
  storage_offset :: nat
  shape :: "nat list"
  stride :: "nat list"
  dtype :: dtype
  device :: device

record 'a world =
  next_obj :: nat
  bufs :: "'a list list"
  warnings :: "(string \<times> nat list) list"

text \<open>
  Exceptions are values. The message of an exception is kept as a constructor with the
  numbers the source formats into it.
\<close>

datatype message =
    SamplesMismatch nat nat
  | YDims nat
  | DtypeMismatch
  | NotTrained
  | MMissing
  | InvalidCenterSelection string
  | IndexOutOfRange
  | NotClose
  | OutputNotUsed

datatype error =
    ValueError message
  | TypeError message
  | RuntimeError message
  | IndexError message
  | AssertionError message

text \<open>What a Python function hands back when the source has paths with and without
  a \<^verbatim>\<open>return\<close> of a boolean: falling off the end of the body returns \<^verbatim>\<open>None\<close>.\<close>

datatype pyval = PyNone | PyBool bool

text \<open>The lines \<^verbatim>\<open>_can_store_knm\<close> prints in debug mode, with the numbers they show.\<close>

datatype print_line =
    KernelWillBeStored nat nat
  | CannotStoreKernel int int

record FalkonOptions =
  debug :: bool
  never_store_kernel :: bool
  store_kernel_d_threshold :: int

text \<open>
  The attributes of \<^verbatim>\<open>FalkonBase\<close> that the methods below read. Python's trailing
  underscore (\<^verbatim>\<open>alpha_\<close>, \<^verbatim>\<open>ny_points_\<close>, \<^verbatim>\<open>random_state_\<close>) is written as a prime,
  and so is \<^verbatim>\<open>M\<close>. The random generator is kept abstract.
\<close>

record 'r FalkonBase =
  M' :: "int option"
  seed :: "int option"
  random_state' :: 'r
  options :: FalkonOptions
  alpha' :: "tensor option"
  ny_points' :: "tensor option"

subsection \<open>Tensor attributes\<close>

text \<open>\<^verbatim>\<open>t.size(i)\<close> raises IndexError when the tensor has no dimension \<open>i\<close>;
  \<^verbatim>\<open>t.shape[0]\<close> does so on a 0-dimensional tensor; \<^verbatim>\<open>t.dim()\<close> is the rank.\<close>

definition size_dim :: "tensor \<Rightarrow> nat \<Rightarrow> error + nat" where
  "size_dim t i =
     (if i < length (shape t) then Inr (shape t ! i) else Inl (IndexError IndexOutOfRange))"

definition dim :: "tensor \<Rightarrow> nat" where
  "dim t = length (shape t)"


subsection \<open>Elements, layouts and the torch and numpy operations used\<close>

text \<open>
  The element at a multi-index sits in the storage buffer at the offset plus the sum of
  index times stride. \<open>indices\<close> lists the multi-indices of a shape in row-major order.
\<close>

fun dot :: "nat list \<Rightarrow> nat list \<Rightarrow> nat" where
  "dot (i # is) (s # ss) = i * s + dot is ss"
| "dot _ _ = 0"

fun indices :: "nat list \<Rightarrow> nat list list" where
  "indices [] = [[]]"
| "indices (n # ns) = concat (map (\<lambda>i. map ((#) i) (indices ns)) [0..<n])"

definition read :: "'a world \<Rightarrow> tensor \<Rightarrow> nat list \<Rightarrow> 'a" where
  "read w t idx = bufs w ! storage t ! (storage_offset t + dot idx (stride t))"

text \<open>
  A tensor of the state: its object and its storage are allocated, it has one stride per
  dimension, and every element lies inside its storage buffer.
\<close>

definition wf_tensor :: "'a world \<Rightarrow> tensor \<Rightarrow> bool" where
  "wf_tensor w t \<longleftrightarrow>
     obj_id t < next_obj w \<and> storage t < length (bufs w)
     \<and> length (stride t) = length (shape t)
     \<and> list_all (\<lambda>idx. storage_offset t + dot idx (stride t) < length (bufs w ! storage t))
          (indices (shape t))"

text \<open>
  Row-major (C) strides of a shape, and numpy's C-contiguity flag: a dimension of size 1
  may have any stride, every other dimension has the product of the later sizes, and an
  array without elements is contiguous.
\<close>

fun c_strides :: "nat list \<Rightarrow> nat list" where
  "c_strides [] = []"
| "c_strides (n # ns) = prod_list ns # c_strides ns"

fun c_contig :: "nat list \<Rightarrow> nat list \<Rightarrow> bool" where
  "c_contig [] [] = True"
| "c_contig (n # ns) (s # ss) = ((n = 1 \<or> s = prod_list ns) \<and> c_contig ns ss)"
| "c_contig _ _ = False"

definition is_c_contiguous :: "tensor \<Rightarrow> bool" where
  "is_c_contiguous t \<longleftrightarrow> 0 \<in> set (shape t) \<or> c_contig (shape t) (stride t)"

text \<open>
  The library calls of \<^verbatim>\<open>to_c_contig\<close> and \<^verbatim>\<open>_check_fit_inputs\<close>, each creating the
  Python objects and buffers the call creates. A numpy array is written as a tensor record
  on the CPU.
  \<^item> \<^verbatim>\<open>t.to(device=d)\<close> returns \<open>t\<close> itself when it is on \<open>d\<close> already, and otherwise a
    new tensor on \<open>d\<close> whose storage is a copy with the strides kept;
    \<^verbatim>\<open>t.cpu()\<close> is \<^verbatim>\<open>t.to(device="cpu")\<close>.
  \<^item> \<^verbatim>\<open>t.numpy()\<close> and \<^verbatim>\<open>torch.from_numpy(a)\<close> create a new object over the same storage.
  \<^item> \<^verbatim>\<open>np.asarray(a, order="C")\<close> returns \<open>a\<close> itself when it is C-contiguous and
    otherwise a new array holding the elements in row-major order.
  \<^item> \<^verbatim>\<open>torch.unsqueeze(t, d)\<close> is a new view with a dimension of size 1 inserted at \<open>d\<close>.
  Tensors that \<^verbatim>\<open>numpy()\<close> refuses (those requiring gradients) and sparse tensors are
  outside the model.
\<close>

definition alloc_obj :: "'a world \<Rightarrow> 'a world" where
  "alloc_obj w = w\<lparr>next_obj := Suc (next_obj w)\<rparr>"

definition to_device :: "tensor \<Rightarrow> device \<Rightarrow> 'a world \<Rightarrow> tensor \<times> 'a world" where
  "to_device t d w =
     (if device t = d then (t, w)
      else (t\<lparr>obj_id := next_obj w, storage := length (bufs w), device := d\<rparr>,
            w\<lparr>next_obj := Suc (next_obj w), bufs := bufs w @ [bufs w ! storage t]\<rparr>))"

definition cpu :: "tensor \<Rightarrow> 'a world \<Rightarrow> tensor \<times> 'a world" where
  "cpu t w = to_device t CPU w"

definition numpy :: "tensor \<Rightarrow> 'a world \<Rightarrow> tensor \<times> 'a world" where
  "numpy t w = (t\<lparr>obj_id := next_obj w\<rparr>, alloc_obj w)"

definition asarray_C :: "tensor \<Rightarrow> 'a world \<Rightarrow> tensor \<times> 'a world" where
  "asarray_C a w =
     (if is_c_contiguous a then (a, w)
      else (a\<lparr>obj_id := next_obj w, storage := length (bufs w), storage_offset := 0,
              stride := c_strides (shape a)\<rparr>,
            w\<lparr>next_obj := Suc (next_obj w),
              bufs := bufs w @ [map (read w a) (indices (shape a))]\<rparr>))"

definition from_numpy :: "tensor \<Rightarrow> 'a world \<Rightarrow> tensor \<times> 'a world" where
  "from_numpy a w = (a\<lparr>obj_id := next_obj w, device := CPU\<rparr>, alloc_obj w)"

definition unsqueeze :: "tensor \<Rightarrow> nat \<Rightarrow> 'a world \<Rightarrow> tensor \<times> 'a world" where
  "unsqueeze t d w =
     (t\<lparr>obj_id := next_obj w,
        shape := take d (shape t) @ 1 # drop d (shape t),
        stride := take d (stride t)
                  @ (if d < length (shape t) then shape t ! d * stride t ! d else 1)
                  # drop d (stride t)\<rparr>,
      alloc_obj w)"

text \<open>\<^verbatim>\<open>t.data_ptr()\<close>: the address of the first element.\<close>

definition data_ptr :: "tensor \<Rightarrow> nat \<times> nat" where
  "data_ptr t = (storage t, storage_offset t)"

section \<open>Layout normalisation\<close>

text \<open>
  \<^verbatim>\<open>to_c_contig(tensor, name, warn)\<close>. The test \<^verbatim>\<open>is_f_contig\<close>
  (\<^verbatim>\<open>falkon.utils.tensor_helpers\<close>) is not among the sources and is a parameter, called
  with \<^verbatim>\<open>strict=True\<close>. The warning records the name and the strides it formats.
\<close>

definition to_c_contig ::
  "(tensor \<Rightarrow> bool \<Rightarrow> bool) \<Rightarrow> tensor option \<Rightarrow> string \<Rightarrow> bool \<Rightarrow> 'a world
     \<Rightarrow> tensor option \<times> 'a world" where
  "to_c_contig is_f_contig tensor name warn w =
     (case tensor of
        Some t \<Rightarrow>
          if is_f_contig t True then
            let w0 = (if warn then w\<lparr>warnings := warnings w @ [(name, stride t)]\<rparr> else w);
                orig_device = device t;
                (t1, w1) = cpu t w0;
                (a, w2) = numpy t1 w1;
                (a', w3) = asarray_C a w2;
                (t2, w4) = from_numpy a' w3;
                (t3, w5) = to_device t2 orig_device w4
            in (Some t3, w5)
          else (tensor, w)
      | None \<Rightarrow> (tensor, w))"

text \<open>The call on an argument that is a tensor for sure (\<open>X\<close> and \<open>Y\<close> of the callers).\<close>

definition to_c_contig_tensor ::
  "(tensor \<Rightarrow> bool \<Rightarrow> bool) \<Rightarrow> tensor \<Rightarrow> string \<Rightarrow> bool \<Rightarrow> 'a world
     \<Rightarrow> tensor \<times> 'a world" where
  "to_c_contig_tensor is_f_contig t name warn w =
     (case to_c_contig is_f_contig (Some t) name warn w of
        (Some t', w') \<Rightarrow> (t', w')
      | (None, w') \<Rightarrow> (t, w'))"

section \<open>Input validation of fit and predict\<close>

text \<open>
  Modelled from the spec: \<^verbatim>\<open>check_same_dtype\<close> (\<^verbatim>\<open>falkon.utils.helpers\<close>) is not
  among the sources. The spec's data model says that \<open>X\<close> and \<open>Y\<close> share one numeric
  element type, so the check compares the two element types.
\<close>

definition check_same_dtype :: "tensor \<Rightarrow> tensor \<Rightarrow> bool" where
  "check_same_dtype X Y \<longleftrightarrow> dtype X = dtype Y"

text \<open>
  \<^verbatim>\<open>FalkonBase._check_fit_inputs(self, X, Y, Xts, Yts)\<close>. \<^verbatim>\<open>should_use_keops\<close>
  (\<^verbatim>\<open>falkon.kernels.keops_helpers\<close>) is not among the sources and is a parameter.
  \<^verbatim>\<open>X.shape[0]\<close> and \<^verbatim>\<open>Y.shape[0]\<close> raise IndexError on a 0-dimensional tensor. The
  validation sets (\<open>Xts\<close>, \<open>Yts\<close>) may be \<^verbatim>\<open>None\<close>.
\<close>

definition check_fit_inputs ::
  "(tensor \<Rightarrow> tensor \<Rightarrow> FalkonOptions \<Rightarrow> bool) \<Rightarrow> (tensor \<Rightarrow> bool \<Rightarrow> bool)
     \<Rightarrow> ('r, 'm) FalkonBase_scheme \<Rightarrow> tensor \<Rightarrow> tensor \<Rightarrow> tensor option \<Rightarrow> tensor option
     \<Rightarrow> 'a world
     \<Rightarrow> error + ((tensor \<times> tensor \<times> tensor option \<times> tensor option) \<times> 'a world)" where
  "check_fit_inputs should_use_keops is_f_contig self X Y Xts Yts w =
     (case size_dim X 0 of
        Inl e \<Rightarrow> Inl e
      | Inr xn \<Rightarrow>
     (case size_dim Y 0 of
        Inl e \<Rightarrow> Inl e
      | Inr yn \<Rightarrow>
          if xn \<noteq> yn then Inl (ValueError (SamplesMismatch xn yn))
          else
            let (Y1, w1) = (if dim Y = 1 then unsqueeze Y 1 w else (Y, w)) in
            if dim Y1 \<noteq> 2 then Inl (ValueError (YDims (dim Y1)))
            else if \<not> check_same_dtype X Y1 then Inl (TypeError DtypeMismatch)
            else if should_use_keops X X (options self) then
              let (X2, w2) = to_c_contig_tensor is_f_contig X ''X'' True w1;
                  (Y2, w3) = to_c_contig_tensor is_f_contig Y1 ''Y'' True w2;
                  (Xts2, w4) = to_c_contig is_f_contig Xts ''Xts'' True w3;
                  (Yts2, w5) = to_c_contig is_f_contig Yts ''Yts'' True w4
              in Inr ((X2, Y2, Xts2, Yts2), w5)
            else Inr ((X, Y1, Xts, Yts), w1)))"

text \<open>\<^verbatim>\<open>FalkonBase._check_predict_inputs(self, X)\<close>.\<close>

definition check_predict_inputs ::
  "(tensor \<Rightarrow> tensor \<Rightarrow> FalkonOptions \<Rightarrow> bool) \<Rightarrow> (tensor \<Rightarrow> bool \<Rightarrow> bool)
     \<Rightarrow> ('r, 'm) FalkonBase_scheme \<Rightarrow> tensor \<Rightarrow> 'a world \<Rightarrow> error + (tensor \<times> 'a world)" where
  "check_predict_inputs should_use_keops is_f_contig self X w =
     (if alpha' self = None \<or> ny_points' self = None then Inl (RuntimeError NotTrained)
      else
        case ny_points' self of
          None \<Rightarrow> Inl (RuntimeError NotTrained)
        | Some ny \<Rightarrow>
            if should_use_keops X ny (options self)
            then Inr (to_c_contig_tensor is_f_contig X ''X'' True w)
            else Inr (X, w))"

text \<open>
  \<^verbatim>\<open>FalkonBase.predict(self, X)\<close>. The abstract method \<^verbatim>\<open>_predict\<close> is a parameter: it
  receives the model and the state and may change both, as a subclass's method may.
\<close>

definition predict ::
  "(tensor \<Rightarrow> tensor \<Rightarrow> FalkonOptions \<Rightarrow> bool) \<Rightarrow> (tensor \<Rightarrow> bool \<Rightarrow> bool)
     \<Rightarrow> (('r, 'm) FalkonBase_scheme \<Rightarrow> tensor \<Rightarrow> tensor option \<Rightarrow> tensor option \<Rightarrow> 'a world
          \<Rightarrow> (error + 'p) \<times> ('r, 'm) FalkonBase_scheme \<times> 'a world)
     \<Rightarrow> ('r, 'm) FalkonBase_scheme \<Rightarrow> tensor \<Rightarrow> 'a world
     \<Rightarrow> (error + 'p) \<times> ('r, 'm) FalkonBase_scheme \<times> 'a world" where
  "predict should_use_keops is_f_contig predict_method self X w =
     (case check_predict_inputs should_use_keops is_f_contig self X w of
        Inl e \<Rightarrow> (Inl e, self, w)
      | Inr (X', w') \<Rightarrow> predict_method self X' (ny_points' self) (alpha' self) w')"

section \<open>Center selection\<close>

text \<open>\<^verbatim>\<open>str.lower()\<close> on the ASCII letters (the only ones that can yield \<^verbatim>\<open>"uniform"\<close>).\<close>

definition lower :: "string \<Rightarrow> string" where
  "lower s =
     map (\<lambda>c. let n = (of_char c :: nat) in
               if 65 \<le> n \<and> n \<le> 90 then char_of (n + 32) else c) s"

text \<open>
  \<^verbatim>\<open>FalkonBase._init_center_selection(self, center_selection)\<close>. The argument is a
  string or a selector object; \<^verbatim>\<open>UniformSelector(random_state, num_centers)\<close> is the
  selector the method builds itself.
\<close>

datatype ('r, 'c) CenterSelector = UniformSelector 'r int | CustomSelector 'c

datatype ('r, 'c) center_selection_arg = Name string | Selector "('r, 'c) CenterSelector"

definition init_center_selection ::
  "('r, 'm) FalkonBase_scheme \<Rightarrow> ('r, 'c) center_selection_arg
     \<Rightarrow> error + ('r, 'c) CenterSelector" where
  "init_center_selection self center_selection =
     (case center_selection of
        Name s \<Rightarrow>
          if lower s = ''uniform'' then
            (case M' self of
               None \<Rightarrow> Inl (ValueError MMissing)
             | Some m \<Rightarrow> Inr (UniformSelector (random_state' self) m))
          else Inl (ValueError (InvalidCenterSelection s))
      | Selector c \<Rightarrow> Inr c)"

section \<open>Kernel evaluation with an output buffer\<close>

text \<open>
  Modelled from the spec: the kernel evaluator (\<^verbatim>\<open>falkon.kernels\<close>: calling a kernel,
  \<^verbatim>\<open>mmv\<close> and \<^verbatim>\<open>dmmv\<close>) is not among the sources; only its tests are. The spec says that
  an optional output buffer may be supplied and must be the one returned (identity, not
  a copy). The numbers are left to a parameter \<open>compute\<close>, which gives the shape and
  the row-major elements of the result. With a buffer, the result is written into the
  buffer's storage and the buffer is returned; without one, a new tensor is allocated.
\<close>

datatype kernel_op = KernelFull | KernelMmv | KernelDmmv

definition write_tensor :: "'a list \<Rightarrow> tensor \<Rightarrow> 'a list \<Rightarrow> 'a list" where
  "write_tensor buf t vals =
     fold (\<lambda>(idx, v) b. b[storage_offset t + dot idx (stride t) := v])
       (zip (indices (shape t)) vals) buf"

definition kernel_call ::
  "(kernel_op \<Rightarrow> tensor list \<Rightarrow> 'a world \<Rightarrow> nat list \<times> 'a list) \<Rightarrow> kernel_op
     \<Rightarrow> tensor list \<Rightarrow> tensor option \<Rightarrow> 'a world \<Rightarrow> tensor \<times> 'a world" where
  "kernel_call compute kop tensors out w =
     (let (shp, vals) = compute kop tensors w in
      case out of
        Some buf \<Rightarrow>
          (buf, w\<lparr>bufs := (bufs w)[storage buf :=
                     write_tensor (bufs w ! storage buf) buf vals]\<rparr>)
      | None \<Rightarrow>
          (\<lparr>obj_id = next_obj w, storage = length (bufs w), storage_offset = 0,
            shape = shp, stride = c_strides shp,
            dtype = (case tensors of t # _ \<Rightarrow> dtype t | [] \<Rightarrow> Float64),
            device = (case tensors of t # _ \<Rightarrow> device t | [] \<Rightarrow> CPU)\<rparr>,
           w\<lparr>next_obj := Suc (next_obj w), bufs := bufs w @ [vals]\<rparr>))"

text \<open>
  \<^verbatim>\<open>_run_test(fn, exp, tensors, out, rtol, opt)\<close> of \<^verbatim>\<open>falkon/tests/test_kernels.py\<close>.
  \<^verbatim>\<open>memory_checker\<close> (the tests' conftest) and numpy's \<^verbatim>\<open>assert_allclose\<close> are
  parameters. A failed assertion is an \<^verbatim>\<open>AssertionError\<close>.
\<close>

definition run_test ::
  "('o \<Rightarrow> 'o) \<Rightarrow> ('e \<Rightarrow> tensor \<Rightarrow> 'v \<Rightarrow> 'a world \<Rightarrow> bool)
     \<Rightarrow> (tensor list \<Rightarrow> tensor option \<Rightarrow> 'o \<Rightarrow> 'a world \<Rightarrow> tensor \<times> 'a world)
     \<Rightarrow> 'e \<Rightarrow> tensor list \<Rightarrow> tensor option \<Rightarrow> 'v \<Rightarrow> 'o \<Rightarrow> 'a world \<Rightarrow> error + 'a world" where
  "run_test memory_checker assert_allclose fn exp tensors out rtol opt w =
     (let new_opt = memory_checker opt;
          (actual, w') = fn tensors out new_opt w
      in if \<not> assert_allclose exp actual rtol w' then Inl (AssertionError NotClose)
         else
           case out of
             None \<Rightarrow> Inr w'
           | Some buf \<Rightarrow>
               if data_ptr buf = data_ptr actual then Inr w'
               else Inl (AssertionError OutputNotUsed))"

section \<open>The K\_NM storage heuristic\<close>

text \<open>
  \<^verbatim>\<open>FalkonBase._can_store_knm(self, X, ny_points, available_ram)\<close>. The helper
  \<^verbatim>\<open>sizeof_dtype\<close> (\<^verbatim>\<open>falkon.utils.helpers\<close>) is not among the sources, so the
  number of bytes of an element is a parameter. The branches follow the source line by
  line; in particular the \<^verbatim>\<open>return False\<close> of the insufficient-memory case sits inside
  the \<^verbatim>\<open>elif self.options.debug\<close> block, so without debugging that path reaches the
  end of the body.
\<close>

definition can_store_knm ::
  "(dtype \<Rightarrow> nat) \<Rightarrow> ('r, 'm) FalkonBase_scheme \<Rightarrow> tensor \<Rightarrow> tensor \<Rightarrow> int
     \<Rightarrow> error + (pyval \<times> print_line list)" where
  "can_store_knm sizeof_dtype self X ny_points available_ram =
     (if never_store_kernel (options self) then Inr (PyBool False, [])
      else
        let dts = sizeof_dtype (dtype X);
            store_threshold = store_kernel_d_threshold (options self)
        in case size_dim X 1 of
             Inl e \<Rightarrow> Inl e
           | Inr d \<Rightarrow>
               if int d > store_threshold then
                 (case size_dim X 0 of
                    Inl e \<Rightarrow> Inl e
                  | Inr n \<Rightarrow>
                      (case size_dim ny_points 0 of
                         Inl e \<Rightarrow> Inl e
                       | Inr m \<Rightarrow>
                           let necessary_ram = int n * int m * int dts in
                           if available_ram > necessary_ram then
                             (if debug (options self)
                              then Inr (PyBool True, [KernelWillBeStored n m])
                              else Inr (PyBool True, []))
                           else if debug (options self) then
                             Inr (PyBool False, [CannotStoreKernel available_ram necessary_ram])
                           else Inr (PyNone, [])))
               else Inr (PyBool False, []))"

section \<open>Relations between states\<close>

text \<open>
  \<open>same_tensor w t w' t'\<close>: the tensor \<open>t'\<close> of the state \<open>w'\<close> has the shape, the
  element type and the elements of \<open>t\<close> in \<open>w\<close>. \<open>extends w w'\<close>: the state \<open>w'\<close>
  has the buffers of \<open>w\<close> unchanged, and perhaps new ones and new objects.
\<close>

definition same_tensor :: "'a world \<Rightarrow> tensor \<Rightarrow> 'a world \<Rightarrow> tensor \<Rightarrow> bool" where
  "same_tensor w t w' t' \<longleftrightarrow>
     storage t' < length (bufs w') \<and> shape t' = shape t \<and> dtype t' = dtype t
     \<and> (\<forall>idx \<in> set (indices (shape t)). read w' t' idx = read w t idx)"

definition extends :: "'a world \<Rightarrow> 'a world \<Rightarrow> bool" where
  "extends w w' \<longleftrightarrow>
     next_obj w \<le> next_obj w' \<and> (\<exists>bs. bufs w' = bufs w @ bs)"

section \<open>Concrete inputs\<close>

text \<open>A 2 by 5 matrix of 4-byte elements, 3 centers, threshold 1.\<close>

definition ex_opts :: "bool \<Rightarrow> bool \<Rightarrow> FalkonOptions" where
  "ex_opts dbg never =
     \<lparr>debug = dbg, never_store_kernel = never, store_kernel_d_threshold = 1\<rparr>"

definition ex_model :: "FalkonOptions \<Rightarrow> nat FalkonBase" where
  "ex_model opts =
     \<lparr>M' = Some 3, seed = None, random_state' = 0, options = opts,
      alpha' = None, ny_points' = None\<rparr>"

definition ex_X :: tensor where
  "ex_X = \<lparr>obj_id = 0, storage = 0, storage_offset = 0, shape = [2, 5], stride = [5, 1],
           dtype = Float32, device = CPU\<rparr>"

definition ex_centers :: tensor where
  "ex_centers = \<lparr>obj_id = 1, storage = 1, storage_offset = 0, shape = [3, 5],
                 stride = [5, 1], dtype = Float32, device = CPU\<rparr>"

definition ex_sizeof :: "dtype \<Rightarrow> nat" where
  "ex_sizeof dt = (case dt of Float16 \<Rightarrow> 2 | Float32 \<Rightarrow> 4 | Float64 \<Rightarrow> 8
                   | Int32 \<Rightarrow> 4 | Int64 \<Rightarrow> 8)"

text \<open>
  A state holding the storages of four tensors: the matrix and the centers above, a 2 by 2
  matrix stored column by column, and a 1-dimensional target of length 2. The test
  \<open>column_major\<close> instantiates \<^verbatim>\<open>is_f_contig\<close> in the concrete runs, and
  \<open>ex_predict\<close> is a \<^verbatim>\<open>_predict\<close> that changes the model and the state.
\<close>

definition ex_world :: "int world" where
  "ex_world =
     \<lparr>next_obj = 4,
      bufs = [[0, 1, 2, 3, 4, 5, 6, 7, 8, 9],
              [0, 1, 2, 3, 4, 5, 6, 7, 8, 9, 10, 11, 12, 13, 14],
              [1, 2, 3, 4],
              [7, 8]],
      warnings = []\<rparr>"

definition ex_F :: tensor where
  "ex_F = \<lparr>obj_id = 2, storage = 2, storage_offset = 0, shape = [2, 2], stride = [1, 2],
           dtype = Float32, device = CPU\<rparr>"

definition ex_Y :: tensor where
  "ex_Y = \<lparr>obj_id = 3, storage = 3, storage_offset = 0, shape = [2], stride = [1],
           dtype = Float32, device = CPU\<rparr>"

fun f_strides :: "nat list \<Rightarrow> nat list" where
  "f_strides [] = []"
| "f_strides (n # ns) = 1 # map ((*) n) (f_strides ns)"

definition column_major :: "tensor \<Rightarrow> bool \<Rightarrow> bool" where
  "column_major t strict \<longleftrightarrow> stride t = f_strides (shape t)"

definition ex_predict ::
  "nat FalkonBase \<Rightarrow> tensor \<Rightarrow> tensor option \<Rightarrow> tensor option \<Rightarrow> int world
     \<Rightarrow> (error + tensor) \<times> nat FalkonBase \<times> int world" where
  "ex_predict self X ny al w = (Inr X, self\<lparr>seed := Some 1\<rparr>, alloc_obj w)"

definition ex_compute :: "kernel_op \<Rightarrow> tensor list \<Rightarrow> int world \<Rightarrow> nat list \<times> int list" where
  "ex_compute kop ts w = ([2, 2], [5, 6, 7, 8])"

text \<open>
  The promoted target, and the row-major copy of the column-major matrix with the state
  after the copy.
\<close>

definition ex_Y_promoted :: tensor where
  "ex_Y_promoted = \<lparr>obj_id = 4, storage = 3, storage_offset = 0, shape = [2, 1],
     stride = [1, 1], dtype = Float32, device = CPU\<rparr>"

definition ex_F_copy :: tensor where
  "ex_F_copy = \<lparr>obj_id = 6, storage = 4, storage_offset = 0, shape = [2, 2],
     stride = [2, 1], dtype = Float32, device = CPU\<rparr>"

definition ex_world_copy :: "int world" where
  "ex_world_copy =
     \<lparr>next_obj = 7,
      bufs = [[0, 1, 2, 3, 4, 5, 6, 7, 8, 9],
              [0, 1, 2, 3, 4, 5, 6, 7, 8, 9, 10, 11, 12, 13, 14],
              [1, 2, 3, 4],
              [7, 8],
              [1, 3, 2, 4]],
      warnings = [(''Y'', [1, 2])]\<rparr>"

text \<open>A single-column target stored with the strides of a column-major layout.\<close>

definition ex_Y_col :: tensor where
  "ex_Y_col = \<lparr>obj_id = 3, storage = 3, storage_offset = 0, shape = [2, 1],
     stride = [1, 2], dtype = Float32, device = CPU\<rparr>"

lemmas ex_defs = ex_opts_def ex_model_def ex_X_def ex_centers_def ex_sizeof_def
  ex_world_def ex_F_def ex_Y_def column_major_def ex_predict_def ex_compute_def

section \<open>Lemmas on indices and layouts\<close>

text \<open>
  The row-major enumeration has one entry per element, it holds exactly the multi-indices
  within the shape, and the row-major strides send every multi-index to its own position
  in the enumeration.
\<close>

lemma length_indices: "length (indices shp) = prod_list shp"
proof (induction shp)
  case Nil
  then show ?case by simp
next
  case (Cons n ns)
  have "length (concat (map (\<lambda>i. map ((#) i) (indices ns)) [0..<n])) = n * prod_list ns"
    using Cons by (induction n) (simp_all add: length_concat)
  then show ?case by simp
qed

lemma nth_concat_uniform:
  "\<forall>b \<in> set bs. length b = P \<Longrightarrow> i < length bs \<Longrightarrow> j < P \<Longrightarrow>
     concat bs ! (i * P + j) = bs ! i ! j"
proof (induction bs arbitrary: i)
  case Nil
  then show ?case by simp
next
  case (Cons b bs)
  show ?case
  proof (cases i)
    case 0
    with Cons.prems show ?thesis by (simp add: nth_append)
  next
    case (Suc k)
    with Cons.prems have "concat bs ! (k * P + j) = bs ! k ! j"
      by (intro Cons.IH) auto
    with Suc Cons.prems show ?thesis
      by (simp add: nth_append add.assoc)
  qed
qed

lemma indices_mem:
  "idx \<in> set (indices shp) \<longleftrightarrow> length idx = length shp \<and> (\<forall>k < length shp. idx ! k < shp ! k)"
proof (induction shp arbitrary: idx)
  case Nil
  then show ?case by simp
next
  case (Cons n ns)
  show ?case
  proof (cases idx)
    case Nil
    then show ?thesis by auto
  next
    case (Cons i rest)
    then show ?thesis
      using Cons.IH [of rest]
      by (auto simp: nth_Cons split: nat.splits)
  qed
qed

lemma indices_c_strides:
  "idx \<in> set (indices shp) \<Longrightarrow>
     dot idx (c_strides shp) < prod_list shp \<and> indices shp ! dot idx (c_strides shp) = idx"
proof (induction shp arbitrary: idx)
  case Nil
  then show ?case by simp
next
  case (Cons n ns)
  from Cons.prems obtain i rest where idx: "idx = i # rest" and i: "i < n"
    and rest: "rest \<in> set (indices ns)"
    by auto
  let ?P = "prod_list ns"
  let ?j = "dot rest (c_strides ns)"
  let ?bs = "map (\<lambda>i. map ((#) i) (indices ns)) [0..<n]"
  from Cons.IH [OF rest] have j: "?j < ?P" and at: "indices ns ! ?j = rest"
    by simp_all
  have len: "\<forall>b \<in> set ?bs. length b = ?P"
    by (auto simp: length_indices)
  have "concat ?bs ! (i * ?P + ?j) = ?bs ! i ! ?j"
    using len i j by (intro nth_concat_uniform) simp_all
  also have "\<dots> = i # rest"
    using i j at by (simp add: length_indices)
  finally have val: "indices (n # ns) ! dot idx (c_strides (n # ns)) = idx"
    by (simp add: idx)
  have "i * ?P + ?j < n * ?P"
  proof -
    have "i * ?P + ?j < i * ?P + ?P" using j by simp
    also have "\<dots> = Suc i * ?P" by simp
    also have "\<dots> \<le> n * ?P" using i by (intro mult_le_mono1) simp
    finally show ?thesis .
  qed
  then have bound: "dot idx (c_strides (n # ns)) < prod_list (n # ns)"
    by (simp add: idx)
  from bound val show ?case by simp
qed

lemma c_contig_c_strides: "c_contig shp (c_strides shp)"
  by (induction shp) simp_all

section \<open>Lemmas on the library operations\<close>

text \<open>
  Each library call keeps what the tensor denotes and only adds objects and buffers to the
  state; \<^verbatim>\<open>to_c_contig\<close> composes five of them.
\<close>

lemma extends_trans: "extends w w' \<Longrightarrow> extends w' w'' \<Longrightarrow> extends w w''"
  by (auto simp: extends_def)

lemma same_tensor_trans:
  "same_tensor w t w' t' \<Longrightarrow> same_tensor w' t' w'' t'' \<Longrightarrow> same_tensor w t w'' t''"
  by (simp add: same_tensor_def)

lemma to_device_step:
  assumes "storage t < length (bufs w)" and "to_device t d w = (t', w')"
  shows "same_tensor w t w' t'" and "extends w w'" and "device t' = d"
    and "stride t' = stride t" and "warnings w' = warnings w"
    and "obj_id t' = obj_id t \<or> next_obj w \<le> obj_id t'"
  using assms
  by (auto simp: to_device_def same_tensor_def extends_def read_def nth_append
      split: if_splits)

lemma numpy_step:
  assumes "storage t < length (bufs w)" and "numpy t w = (t', w')"
  shows "same_tensor w t w' t'" and "extends w w'" and "device t' = device t"
    and "stride t' = stride t" and "warnings w' = warnings w"
    and "obj_id t' = next_obj w"
  using assms
  by (auto simp: numpy_def alloc_obj_def same_tensor_def extends_def read_def)

lemma from_numpy_step:
  assumes "storage t < length (bufs w)" and "from_numpy t w = (t', w')"
  shows "same_tensor w t w' t'" and "extends w w'" and "device t' = CPU"
    and "stride t' = stride t" and "warnings w' = warnings w"
    and "obj_id t' = next_obj w"
  using assms
  by (auto simp: from_numpy_def alloc_obj_def same_tensor_def extends_def read_def)

lemma asarray_C_step:
  assumes "storage t < length (bufs w)" and "asarray_C t w = (t', w')"
  shows "same_tensor w t w' t'" and "extends w w'" and "device t' = device t"
    and "is_c_contiguous t'" and "warnings w' = warnings w"
proof -
  show "same_tensor w t w' t'"
  proof (cases "is_c_contiguous t")
    case True
    with assms show ?thesis by (simp add: asarray_C_def same_tensor_def)
  next
    case False
    have "read w' t' idx = read w t idx" if "idx \<in> set (indices (shape t))" for idx
    proof -
      from indices_c_strides [OF that]
      have "dot idx (c_strides (shape t)) < length (indices (shape t))"
        and "indices (shape t) ! dot idx (c_strides (shape t)) = idx"
        by (simp_all add: length_indices)
      with False assms show ?thesis
        by (auto simp: asarray_C_def read_def)
    qed
    moreover from False assms have "storage t' < length (bufs w')"
      and "shape t' = shape t" and "dtype t' = dtype t"
      by (auto simp: asarray_C_def)
    ultimately show ?thesis by (simp add: same_tensor_def)
  qed
  show "extends w w'" "device t' = device t" "warnings w' = warnings w"
    using assms by (auto simp: asarray_C_def extends_def split: if_splits)
  show "is_c_contiguous t'"
    using assms
    by (auto simp: asarray_C_def is_c_contiguous_def c_contig_c_strides split: if_splits)
qed

lemma to_c_contig_None: "to_c_contig f None name warn w = (None, w)"
  by (simp add: to_c_contig_def)

lemma to_c_contig_same:
  "\<not> f t True \<Longrightarrow> to_c_contig f (Some t) name warn w = (Some t, w)"
  by (simp add: to_c_contig_def)

lemma to_c_contig_copy:
  assumes f: "f t True" and st: "storage t < length (bufs w)"
    and run: "to_c_contig f (Some t) name warn w = (r, w')"
  shows "\<exists>t'. r = Some t' \<and> same_tensor w t w' t' \<and> extends w w'
           \<and> device t' = device t \<and> is_c_contiguous t' \<and> next_obj w \<le> obj_id t'
           \<and> warnings w' = warnings w @ (if warn then [(name, stride t)] else [])"
proof -
  define w0 where "w0 = (if warn then w\<lparr>warnings := warnings w @ [(name, stride t)]\<rparr> else w)"
  obtain t1 w1 where s1: "cpu t w0 = (t1, w1)" by (cases "cpu t w0")
  obtain a w2 where s2: "numpy t1 w1 = (a, w2)" by (cases "numpy t1 w1")
  obtain a' w3 where s3: "asarray_C a w2 = (a', w3)" by (cases "asarray_C a w2")
  obtain t2 w4 where s4: "from_numpy a' w3 = (t2, w4)" by (cases "from_numpy a' w3")
  obtain t3 w5 where s5: "to_device t2 (device t) w4 = (t3, w5)"
    by (cases "to_device t2 (device t) w4")
  from run f s1 s2 s3 s4 s5 have res: "r = Some t3" "w' = w5"
    by (simp_all add: to_c_contig_def w0_def [symmetric])
  have b0: "bufs w0 = bufs w" "next_obj w0 = next_obj w"
    "warnings w0 = warnings w @ (if warn then [(name, stride t)] else [])"
    by (simp_all add: w0_def)
  have e0: "extends w w0" and k0: "same_tensor w t w0 t"
    using st by (simp_all add: extends_def same_tensor_def read_def b0)
  have st0: "storage t < length (bufs w0)" using st b0 by simp
  note c1 = to_device_step [OF st0 s1 [unfolded cpu_def]]
  have st1: "storage t1 < length (bufs w1)" using c1(1) by (simp add: same_tensor_def)
  note c2 = numpy_step [OF st1 s2]
  have st2: "storage a < length (bufs w2)" using c2(1) by (simp add: same_tensor_def)
  note c3 = asarray_C_step [OF st2 s3]
  have st3: "storage a' < length (bufs w3)" using c3(1) by (simp add: same_tensor_def)
  note c4 = from_numpy_step [OF st3 s4]
  have st4: "storage t2 < length (bufs w4)" using c4(1) by (simp add: same_tensor_def)
  note c5 = to_device_step [OF st4 s5]
  have same: "same_tensor w t w5 t3"
    using k0 c1(1) c2(1) c3(1) c4(1) c5(1) by (blast intro: same_tensor_trans)
  have ext: "extends w w5"
    using e0 c1(2) c2(2) c3(2) c4(2) c5(2) by (blast intro: extends_trans)
  have ext4: "extends w w4"
    using e0 c1(2) c2(2) c3(2) c4(2) by (blast intro: extends_trans)
  have ext3: "extends w w3"
    using e0 c1(2) c2(2) c3(2) by (blast intro: extends_trans)
  have dev: "device t3 = device t" using c5(3) .
  have shp: "shape t3 = shape a'" "stride t3 = stride a'"
    using c4(1,4) c5(1,4) by (simp_all add: same_tensor_def)
  have cc: "is_c_contiguous t3"
    using c3(4) shp by (simp add: is_c_contiguous_def)
  have fresh: "next_obj w \<le> obj_id t3"
    using c4(6) c5(6) ext3 ext4 by (auto simp: extends_def)
  have warn: "warnings w5 = warnings w @ (if warn then [(name, stride t)] else [])"
    using b0(3) c1(5) c2(5) c3(5) c4(5) c5(5) by simp
  from res same ext dev cc fresh warn show ?thesis by simp
qed

lemma to_c_contig_extends:
  "to_c_contig f topt name warn w = (r, w') \<Longrightarrow> extends w w'"
  by (auto simp: to_c_contig_def extends_def cpu_def to_device_def numpy_def asarray_C_def
      from_numpy_def alloc_obj_def Let_def split: option.splits if_splits prod.splits)

lemma to_c_contig_tensor_extends:
  "to_c_contig_tensor f t name warn w = (t', w') \<Longrightarrow> extends w w'"
  by (auto simp: to_c_contig_tensor_def split: prod.splits option.splits
      dest: to_c_contig_extends)

lemma to_c_contig_tensor_same:
  assumes "storage t < length (bufs w)" and "to_c_contig_tensor f t name warn w = (t', w')"
  shows "same_tensor w t w' t'" and "\<not> f t True \<longrightarrow> t' = t \<and> w' = w"
proof -
  show "\<not> f t True \<longrightarrow> t' = t \<and> w' = w"
    using assms(2) by (auto simp: to_c_contig_tensor_def to_c_contig_same)
  show "same_tensor w t w' t'"
  proof (cases "f t True")
    case True
    obtain r w2 where run: "to_c_contig f (Some t) name warn w = (r, w2)"
      by (cases "to_c_contig f (Some t) name warn w")
    from to_c_contig_copy [OF True assms(1) run] assms(2) run show ?thesis
      by (auto simp: to_c_contig_tensor_def)
  next
    case False
    with assms show ?thesis
      by (auto simp: to_c_contig_tensor_def to_c_contig_same same_tensor_def)
  qed
qed

section \<open>Lemmas on fit-input validation\<close>

text \<open>
  What an accepting run of \<^verbatim>\<open>_check_fit_inputs\<close> went through, and what that means
  for the target.
\<close>

lemma fit_inputs_accepted:
  assumes acc: "check_fit_inputs keops f self X Y Xts Yts w = Inr ((X', Y', Xts', Yts'), w')"
  obtains Y1 w1 where
    "(if dim Y = 1 then unsqueeze Y 1 w else (Y, w)) = (Y1, w1)"
    and "dim Y1 = 2" and "check_same_dtype X Y1"
    and "\<not> keops X X (options self) \<Longrightarrow> X' = X \<and> Y' = Y1 \<and> Xts' = Xts \<and> Yts' = Yts \<and> w' = w1"
    and "keops X X (options self) \<Longrightarrow>
           \<exists>w2 w3 w4. to_c_contig_tensor f X ''X'' True w1 = (X', w2)
            \<and> to_c_contig_tensor f Y1 ''Y'' True w2 = (Y', w3)
            \<and> to_c_contig f Xts ''Xts'' True w3 = (Xts', w4)
            \<and> to_c_contig f Yts ''Yts'' True w4 = (Yts', w')"
proof -
  obtain Y1 w1 where y1: "(if dim Y = 1 then unsqueeze Y 1 w else (Y, w)) = (Y1, w1)"
    by (cases "if dim Y = 1 then unsqueeze Y 1 w else (Y, w)")
  obtain xn where xn: "size_dim X 0 = Inr xn"
    using acc by (cases "size_dim X 0") (simp_all add: check_fit_inputs_def)
  obtain yn where yn: "size_dim Y 0 = Inr yn"
    using acc xn by (cases "size_dim Y 0") (simp_all add: check_fit_inputs_def)
  have eq: "xn = yn"
    using acc xn yn by (simp add: check_fit_inputs_def split: if_splits)
  have body: "(if dim Y1 \<noteq> 2 then Inl (ValueError (YDims (dim Y1)))
            else if \<not> check_same_dtype X Y1 then Inl (TypeError DtypeMismatch)
            else if keops X X (options self) then
              let (X2, w2) = to_c_contig_tensor f X ''X'' True w1;
                  (Y2, w3) = to_c_contig_tensor f Y1 ''Y'' True w2;
                  (Xts2, w4) = to_c_contig f Xts ''Xts'' True w3;
                  (Yts2, w5) = to_c_contig f Yts ''Yts'' True w4
              in Inr ((X2, Y2, Xts2, Yts2), w5)
            else Inr ((X, Y1, Xts, Yts), w1)) = Inr ((X', Y', Xts', Yts'), w')"
    using acc unfolding check_fit_inputs_def xn yn eq y1 by simp
  have d2: "dim Y1 = 2"
    using body by (cases "dim Y1 = 2") simp_all
  have dt: "check_same_dtype X Y1"
    using body d2 by (cases "check_same_dtype X Y1") simp_all
  have nk: "X' = X \<and> Y' = Y1 \<and> Xts' = Xts \<and> Yts' = Yts \<and> w' = w1"
    if "\<not> keops X X (options self)"
    using body d2 dt that by simp
  have k: "\<exists>w2 w3 w4. to_c_contig_tensor f X ''X'' True w1 = (X', w2)
            \<and> to_c_contig_tensor f Y1 ''Y'' True w2 = (Y', w3)
            \<and> to_c_contig f Xts ''Xts'' True w3 = (Xts', w4)
            \<and> to_c_contig f Yts ''Yts'' True w4 = (Yts', w')"
    if "keops X X (options self)"
  proof -
    obtain X2 w2 where s1: "to_c_contig_tensor f X ''X'' True w1 = (X2, w2)"
      by (cases "to_c_contig_tensor f X ''X'' True w1")
    obtain Y2 w3 where s2: "to_c_contig_tensor f Y1 ''Y'' True w2 = (Y2, w3)"
      by (cases "to_c_contig_tensor f Y1 ''Y'' True w2")
    obtain Xts2 w4 where s3: "to_c_contig f Xts ''Xts'' True w3 = (Xts2, w4)"
      by (cases "to_c_contig f Xts ''Xts'' True w3")
    obtain Yts2 w5 where s4: "to_c_contig f Yts ''Yts'' True w4 = (Yts2, w5)"
      by (cases "to_c_contig f Yts ''Yts'' True w4")
    from body d2 dt that s1 s2 s3 s4 show ?thesis by simp
  qed
  from y1 d2 dt nk k that show thesis by blast
qed

lemma unsqueeze_1d:
  assumes "shape Y = [n]" and "length (stride Y) = length (shape Y)"
    and "unsqueeze Y 1 w = (Y1, w1)"
  shows "shape Y1 = [n, 1]" and "storage Y1 = storage Y" and "bufs w1 = bufs w"
    and "dtype Y1 = dtype Y" and "read w1 Y1 [i, 0] = read w Y [i]"
proof -
  from assms(1,2) obtain s where s: "stride Y = [s]"
    by (cases "stride Y") auto
  from assms(1,3) s show "shape Y1 = [n, 1]" "storage Y1 = storage Y" "bufs w1 = bufs w"
    "dtype Y1 = dtype Y" "read w1 Y1 [i, 0] = read w Y [i]"
    by (auto simp: unsqueeze_def alloc_obj_def read_def)
qed

lemma same_tensor_extends:
  "extends w w' \<Longrightarrow> storage t < length (bufs w) \<Longrightarrow> same_tensor w t w' t"
  by (auto simp: same_tensor_def extends_def read_def nth_append)

lemma fit_target_high_rank:
  assumes "shape X = n # xs" and "shape Y = m # ys" and "2 \<le> length ys"
  shows "check_fit_inputs keops f self X Y Xts Yts w =
          Inl (ValueError (if n \<noteq> m then SamplesMismatch n m else YDims (Suc (length ys))))"
proof -
  from assms have "dim Y \<noteq> 1" and "dim Y \<noteq> 2" and "dim Y = Suc (length ys)"
    by (auto simp: dim_def)
  with assms show ?thesis
    by (simp add: check_fit_inputs_def size_dim_def)
qed

lemma fit_target_accepted:
  assumes acc: "check_fit_inputs keops f self X Y Xts Yts w = Inr ((X', Y', Xts', Yts'), w')"
    and wf: "wf_tensor w Y"
  shows "dim Y' = 2"
    and "shape Y = [n] \<Longrightarrow> shape Y' = [n, 1]"
    and "shape Y = [n] \<Longrightarrow> i < n \<Longrightarrow> read w' Y' [i, 0] = read w Y [i]"
    and "dim Y = 2 \<Longrightarrow> shape Y' = shape Y"
    and "dim Y = 2 \<Longrightarrow> idx \<in> set (indices (shape Y)) \<Longrightarrow> read w' Y' idx = read w Y idx"
    and "dim Y = 2 \<Longrightarrow> \<not> (keops X X (options self) \<and> f Y True) \<Longrightarrow> Y' = Y"
proof -
  from wf have st: "storage Y < length (bufs w)"
    and len: "length (stride Y) = length (shape Y)"
    by (simp_all add: wf_tensor_def)
  from acc obtain Y1 w1 where
    y1: "(if dim Y = 1 then unsqueeze Y 1 w else (Y, w)) = (Y1, w1)"
    and d2: "dim Y1 = 2" and dt: "check_same_dtype X Y1"
    and nk: "\<not> keops X X (options self) \<Longrightarrow>
               X' = X \<and> Y' = Y1 \<and> Xts' = Xts \<and> Yts' = Yts \<and> w' = w1"
    and k: "keops X X (options self) \<Longrightarrow>
           \<exists>w2 w3 w4. to_c_contig_tensor f X ''X'' True w1 = (X', w2)
            \<and> to_c_contig_tensor f Y1 ''Y'' True w2 = (Y', w3)
            \<and> to_c_contig f Xts ''Xts'' True w3 = (Xts', w4)
            \<and> to_c_contig f Yts ''Yts'' True w4 = (Yts', w')"
    by (rule fit_inputs_accepted) blast
  have st1: "storage Y1 < length (bufs w1)"
    using y1 st by (auto simp: unsqueeze_def alloc_obj_def split: if_splits)
  have sh2: "Y1 = Y \<and> w1 = w" if "dim Y = 2"
    using y1 that by simp
  have same: "same_tensor w1 Y1 w' Y'"
  proof (cases "keops X X (options self)")
    case False
    with nk st1 show ?thesis by (simp add: same_tensor_def)
  next
    case True
    with k obtain w2 w3 w4 where
      s1: "to_c_contig_tensor f X ''X'' True w1 = (X', w2)"
      and s2: "to_c_contig_tensor f Y1 ''Y'' True w2 = (Y', w3)"
      and s3: "to_c_contig f Xts ''Xts'' True w3 = (Xts', w4)"
      and s4: "to_c_contig f Yts ''Yts'' True w4 = (Yts', w')"
      by auto
    have e12: "extends w1 w2" using s1 by (rule to_c_contig_tensor_extends)
    then have st2: "storage Y1 < length (bufs w2)"
      using st1 by (auto simp: extends_def)
    have k1: "same_tensor w1 Y1 w2 Y1"
      using e12 st1 by (rule same_tensor_extends)
    have k2: "same_tensor w2 Y1 w3 Y'"
      using to_c_contig_tensor_same(1) [OF st2 s2] .
    then have st3: "storage Y' < length (bufs w3)"
      by (simp add: same_tensor_def)
    have "extends w3 w4" using s3 by (rule to_c_contig_extends)
    moreover have "extends w4 w'" using s4 by (rule to_c_contig_extends)
    ultimately have "extends w3 w'" by (rule extends_trans)
    then have k3: "same_tensor w3 Y' w' Y'"
      using st3 by (rule same_tensor_extends)
    from k1 k2 have "same_tensor w1 Y1 w3 Y'" by (rule same_tensor_trans)
    from this k3 show ?thesis by (rule same_tensor_trans)
  qed
  have keep: "Y' = Y1" if "\<not> (keops X X (options self) \<and> f Y1 True)"
  proof (cases "keops X X (options self)")
    case False
    with nk show ?thesis by simp
  next
    case True
    with k obtain w2 w3 where
      s1: "to_c_contig_tensor f X ''X'' True w1 = (X', w2)"
      and s2: "to_c_contig_tensor f Y1 ''Y'' True w2 = (Y', w3)"
      by auto
    from True that have "\<not> f Y1 True" by simp
    with s2 show ?thesis
      by (simp add: to_c_contig_tensor_def to_c_contig_same)
  qed
  show "dim Y' = 2"
    using same d2 by (simp add: same_tensor_def dim_def)
  show "shape Y' = [n, 1]" if s: "shape Y = [n]"
  proof -
    from s y1 have "unsqueeze Y 1 w = (Y1, w1)" by (simp add: dim_def)
    from unsqueeze_1d(1) [OF s len this] same show ?thesis
      by (simp add: same_tensor_def)
  qed
  show "read w' Y' [i, 0] = read w Y [i]" if s: "shape Y = [n]" and i: "i < n"
  proof -
    from s y1 have u: "unsqueeze Y 1 w = (Y1, w1)" by (simp add: dim_def)
    have a1: "shape Y1 = [n, 1]" using unsqueeze_1d(1) [OF s len u] .
    have a2: "read w1 Y1 [i, 0] = read w Y [i]" using unsqueeze_1d(5) [OF s len u] .
    have "[i, 0] \<in> set (indices (shape Y1))"
      using i a1 by (simp add: indices_mem nth_Cons split: nat.splits)
    with same have "read w' Y' [i, 0] = read w1 Y1 [i, 0]"
      by (simp add: same_tensor_def)
    with a2 show ?thesis by simp
  qed
  show "shape Y' = shape Y" if "dim Y = 2"
    using sh2 [OF that] same by (simp add: same_tensor_def)
  show "read w' Y' idx = read w Y idx" if "dim Y = 2" and "idx \<in> set (indices (shape Y))"
    using sh2 [OF that(1)] same that(2) by (simp add: same_tensor_def)
  show "Y' = Y" if "dim Y = 2" and "\<not> (keops X X (options self) \<and> f Y True)"
    using sh2 [OF that(1)] keep that(2) by simp
qed

lemma to_c_contig_tensor_copy:
  assumes "f t True" and "storage t < length (bufs w)"
    and "to_c_contig_tensor f t name warn w = (t', w')"
  shows "is_c_contiguous t'" and "next_obj w \<le> obj_id t'" and "device t' = device t"
proof -
  obtain r w2 where run: "to_c_contig f (Some t) name warn w = (r, w2)"
    by (cases "to_c_contig f (Some t) name warn w")
  from to_c_contig_copy [OF assms(1,2) run] assms(3) run
  show "is_c_contiguous t'" "next_obj w \<le> obj_id t'" "device t' = device t"
    by (auto simp: to_c_contig_tensor_def)
qed

lemma fit_target_copied:
  assumes acc: "check_fit_inputs keops f self X Y Xts Yts w = Inr ((X', Y', Xts', Yts'), w')"
    and wf: "wf_tensor w Y" and d: "dim Y = 2"
    and k: "keops X X (options self)" and fy: "f Y True"
  shows "is_c_contiguous Y'" and "obj_id Y < obj_id Y'"
proof -
  from wf have st: "storage Y < length (bufs w)" and ob: "obj_id Y < next_obj w"
    by (simp_all add: wf_tensor_def)
  from acc obtain Y1 w1 where
    y1: "(if dim Y = 1 then unsqueeze Y 1 w else (Y, w)) = (Y1, w1)"
    and ex: "keops X X (options self) \<Longrightarrow>
           \<exists>w2 w3 w4. to_c_contig_tensor f X ''X'' True w1 = (X', w2)
            \<and> to_c_contig_tensor f Y1 ''Y'' True w2 = (Y', w3)
            \<and> to_c_contig f Xts ''Xts'' True w3 = (Xts', w4)
            \<and> to_c_contig f Yts ''Yts'' True w4 = (Yts', w')"
    by (rule fit_inputs_accepted) blast
  from y1 d have eq: "Y1 = Y" "w1 = w" by simp_all
  from ex [OF k] eq obtain w2 w3 where
    s1: "to_c_contig_tensor f X ''X'' True w = (X', w2)"
    and s2: "to_c_contig_tensor f Y ''Y'' True w2 = (Y', w3)"
    by auto
  have e: "extends w w2" using s1 by (rule to_c_contig_tensor_extends)
  then have st2: "storage Y < length (bufs w2)" and n: "next_obj w \<le> next_obj w2"
    using st by (auto simp: extends_def)
  from to_c_contig_tensor_copy [OF fy st2 s2] n ob
  show "is_c_contiguous Y'" and "obj_id Y < obj_id Y'"
    by simp_all
qed

section \<open>Properties of the storage heuristic\<close>

text \<open>
  C1, as amended. When \<^verbatim>\<open>never_store_kernel\<close> is not set, \<open>X\<close> is an \<open>N\<close> by \<open>D\<close> matrix
  and there are \<open>Mc\<close> centers: if \<open>D\<close> does not exceed the threshold the decision is
  \<^verbatim>\<open>False\<close> whatever the budget; if \<open>D\<close> exceeds the threshold and the budget is strictly
  greater than \<open>N * Mc * sizeof(dtype)\<close> the decision is \<^verbatim>\<open>True\<close>; if \<open>D\<close> exceeds the
  threshold and the budget is at most that product, the decision is not \<^verbatim>\<open>True\<close>.
\<close>

theorem can_store_knm_three_cases:
  assumes "\<not> never_store_kernel (options self)"
    and "shape X = N # D # xs"
    and "shape ny_points = Mc # ms"
  shows "(int D \<le> store_kernel_d_threshold (options self) \<longrightarrow>
            can_store_knm sz self X ny_points ram = Inr (PyBool False, []))
       \<and> (int D > store_kernel_d_threshold (options self)
            \<and> ram > int N * int Mc * int (sz (dtype X)) \<longrightarrow>
            (\<exists>out. can_store_knm sz self X ny_points ram = Inr (PyBool True, out)))
       \<and> (int D > store_kernel_d_threshold (options self)
            \<and> ram \<le> int N * int Mc * int (sz (dtype X)) \<longrightarrow>
            (\<exists>r out. can_store_knm sz self X ny_points ram = Inr (r, out)
                      \<and> r \<noteq> PyBool True))"
  using assms by (simp add: can_store_knm_def size_dim_def Let_def)

theorem can_store_knm_three_cases_witness:
  "can_store_knm ex_sizeof (ex_model (ex_opts True False))
       (ex_X\<lparr>shape := [2, 1]\<rparr>) ex_centers 1000 = Inr (PyBool False, [])
   \<and> (\<exists>out. can_store_knm ex_sizeof (ex_model (ex_opts True False)) ex_X ex_centers 25
         = Inr (PyBool True, out))
   \<and> (\<exists>r out. can_store_knm ex_sizeof (ex_model (ex_opts True False)) ex_X ex_centers 24
         = Inr (r, out) \<and> r \<noteq> PyBool True)"
proof -
  let ?self = "ex_model (ex_opts True False)"
  have n: "\<not> never_store_kernel (options ?self)"
    by (simp add: ex_defs)
  have c: "shape ex_centers = 3 # [5]"
    by (simp add: ex_defs)
  have s1: "shape (ex_X\<lparr>shape := [2, 1]\<rparr>) = 2 # 1 # []"
    by simp
  have s2: "shape ex_X = 2 # 5 # []"
    by (simp add: ex_defs)
  have a: "can_store_knm ex_sizeof ?self (ex_X\<lparr>shape := [2, 1]\<rparr>) ex_centers 1000
             = Inr (PyBool False, [])"
    using can_store_knm_three_cases [OF n s1 c, of ex_sizeof 1000]
    by (simp add: ex_defs)
  have b: "\<exists>out. can_store_knm ex_sizeof ?self ex_X ex_centers 25 = Inr (PyBool True, out)"
    using can_store_knm_three_cases [OF n s2 c, of ex_sizeof 25]
    by (simp add: ex_defs)
  have d: "\<exists>r out. can_store_knm ex_sizeof ?self ex_X ex_centers 24 = Inr (r, out)
             \<and> r \<noteq> PyBool True"
    using can_store_knm_three_cases [OF n s2 c, of ex_sizeof 24]
    by (simp add: ex_defs)
  from a b d show ?thesis by blast
qed

text \<open>
  C1 as stated fails twice. With a budget of exactly \<open>N * Mc * sizeof(dtype) = 24\<close>
  bytes and \<open>D = 5\<close> above the threshold \<open>1\<close>, the decision is \<^verbatim>\<open>False\<close>: the source
  compares with \<^verbatim>\<open>>\<close>. And with \<^verbatim>\<open>never_store_kernel\<close> set the decision is \<^verbatim>\<open>False\<close>
  even for an ample budget.
\<close>

theorem can_store_knm_budget_equal_counterexample:
  "int 5 > store_kernel_d_threshold (ex_opts True False)
   \<and> (24::int) \<ge> int 2 * int 3 * int (ex_sizeof Float32)
   \<and> can_store_knm ex_sizeof (ex_model (ex_opts True False)) ex_X ex_centers 24
        = Inr (PyBool False, [CannotStoreKernel 24 24])
   \<and> can_store_knm ex_sizeof (ex_model (ex_opts True True)) ex_X ex_centers 1000000
        = Inr (PyBool False, [])"
  by (simp add: can_store_knm_def size_dim_def ex_defs)

text \<open>
  C2 at its failing input. With \<open>D = 5\<close> above the threshold, a budget of 10 bytes below
  the 24 needed and debugging off, the call returns \<^verbatim>\<open>None\<close>, not a boolean; the same
  call with debugging on returns \<^verbatim>\<open>False\<close>.
\<close>

theorem can_store_knm_returns_None:
  "can_store_knm ex_sizeof (ex_model (ex_opts False False)) ex_X ex_centers 10
       = Inr (PyNone, [])
   \<and> can_store_knm ex_sizeof (ex_model (ex_opts True False)) ex_X ex_centers 10
       = Inr (PyBool False, [CannotStoreKernel 10 24])"
  by (simp add: can_store_knm_def size_dim_def ex_defs)

text \<open>
  The call returns \<^verbatim>\<open>None\<close> exactly when storing is allowed, debugging is off, \<open>D\<close>
  exceeds the threshold and the budget does not exceed the memory needed.
\<close>

lemma can_store_knm_None_iff:
  assumes "shape X = N # D # xs" and "shape ny_points = Mc # ms"
  shows "(\<exists>out. can_store_knm sz self X ny_points ram = Inr (PyNone, out)) \<longleftrightarrow>
     \<not> never_store_kernel (options self) \<and> \<not> debug (options self)
     \<and> int D > store_kernel_d_threshold (options self)
     \<and> ram \<le> int N * int Mc * int (sz (dtype X))"
  using assms by (auto simp: can_store_knm_def size_dim_def Let_def)

text \<open>
  C9. When \<^verbatim>\<open>never_store_kernel\<close> is set, the decision is \<^verbatim>\<open>False\<close> for every \<open>X\<close>,
  every set of centers and every budget, and nothing is printed.
\<close>

theorem can_store_knm_never_store:
  "never_store_kernel (options self) \<Longrightarrow>
     can_store_knm sz self X ny_points ram = Inr (PyBool False, [])"
  by (simp add: can_store_knm_def)

theorem can_store_knm_never_store_witness:
  "never_store_kernel (options (ex_model (ex_opts True True)))
   \<and> int 5 > store_kernel_d_threshold (options (ex_model (ex_opts True True)))
   \<and> (1000000::int) > int 2 * int 3 * int (ex_sizeof (dtype ex_X))
   \<and> can_store_knm ex_sizeof (ex_model (ex_opts True True)) ex_X ex_centers 1000000
        = Inr (PyBool False, [])"
proof -
  have h: "never_store_kernel (options (ex_model (ex_opts True True)))"
    by (simp add: ex_defs)
  show ?thesis
    using h can_store_knm_never_store [OF h, of ex_sizeof ex_X ex_centers 1000000]
    by (simp add: ex_defs)
qed

section \<open>Properties of layout normalisation\<close>

text \<open>
  C10. \<^verbatim>\<open>to_c_contig\<close> returns \<^verbatim>\<open>None\<close> for \<^verbatim>\<open>None\<close>, leaving the state as it is. A
  tensor that is not strictly F-contiguous is returned as the identical object, and the
  state is unchanged: nothing is copied and no warning is issued. A strictly F-contiguous
  tensor of the state is returned as a new object (its identity is fresh), C-contiguous,
  with the shape, the element type and the device of the input and with equal elements at
  every index.
\<close>

theorem to_c_contig_cases:
  "to_c_contig f None name warn w = (None, w)
   \<and> (\<not> f t True \<longrightarrow> to_c_contig f (Some t) name warn w = (Some t, w))
   \<and> (f t True \<and> wf_tensor w t \<longrightarrow>
        (\<exists>t' w'. to_c_contig f (Some t) name warn w = (Some t', w')
           \<and> next_obj w \<le> obj_id t' \<and> obj_id t' \<noteq> obj_id t
           \<and> is_c_contiguous t'
           \<and> shape t' = shape t \<and> dtype t' = dtype t \<and> device t' = device t
           \<and> (\<forall>idx \<in> set (indices (shape t)). read w' t' idx = read w t idx)))"
proof (intro conjI impI)
  show "to_c_contig f None name warn w = (None, w)"
    by (rule to_c_contig_None)
next
  assume "\<not> f t True"
  then show "to_c_contig f (Some t) name warn w = (Some t, w)"
    by (rule to_c_contig_same)
next
  assume a: "f t True \<and> wf_tensor w t"
  then have st: "storage t < length (bufs w)" and ob: "obj_id t < next_obj w"
    by (simp_all add: wf_tensor_def)
  obtain r w' where run: "to_c_contig f (Some t) name warn w = (r, w')"
    by (cases "to_c_contig f (Some t) name warn w")
  from a have ft: "f t True" by simp
  from to_c_contig_copy [OF ft st run] obtain t' where
    r: "r = Some t'" and same: "same_tensor w t w' t'" and dev: "device t' = device t"
    and cc: "is_c_contiguous t'" and fresh: "next_obj w \<le> obj_id t'"
    by blast
  from same have "shape t' = shape t" and "dtype t' = dtype t"
    and "\<forall>idx \<in> set (indices (shape t)). read w' t' idx = read w t idx"
    by (simp_all add: same_tensor_def)
  moreover from fresh ob have "obj_id t' \<noteq> obj_id t" by simp
  ultimately show "\<exists>t' w'. to_c_contig f (Some t) name warn w = (Some t', w')
           \<and> next_obj w \<le> obj_id t' \<and> obj_id t' \<noteq> obj_id t
           \<and> is_c_contiguous t'
           \<and> shape t' = shape t \<and> dtype t' = dtype t \<and> device t' = device t
           \<and> (\<forall>idx \<in> set (indices (shape t)). read w' t' idx = read w t idx)"
    using run r dev cc fresh by blast
qed

theorem to_c_contig_cases_witness:
  "to_c_contig column_major None ''X'' True ex_world = (None, ex_world)
   \<and> \<not> column_major ex_X True
   \<and> to_c_contig column_major (Some ex_X) ''X'' True ex_world = (Some ex_X, ex_world)
   \<and> column_major ex_F True \<and> wf_tensor ex_world ex_F
   \<and> (\<exists>t' w'. to_c_contig column_major (Some ex_F) ''X'' True ex_world = (Some t', w')
         \<and> next_obj ex_world \<le> obj_id t' \<and> obj_id t' \<noteq> obj_id ex_F
         \<and> is_c_contiguous t'
         \<and> shape t' = shape ex_F \<and> dtype t' = dtype ex_F \<and> device t' = device ex_F
         \<and> (\<forall>idx \<in> set (indices (shape ex_F)). read w' t' idx = read ex_world ex_F idx))"
proof -
  have n: "\<not> column_major ex_X True" by code_simp
  have c: "column_major ex_F True" by code_simp
  have wf: "wf_tensor ex_world ex_F" by code_simp
  note a = to_c_contig_cases [where f = column_major and t = ex_X and w = ex_world
      and name = "''X''" and warn = True]
  note b = to_c_contig_cases [where f = column_major and t = ex_F and w = ex_world
      and name = "''X''" and warn = True]
  from a n have a1: "to_c_contig column_major None ''X'' True ex_world = (None, ex_world)"
    and a2: "to_c_contig column_major (Some ex_X) ''X'' True ex_world = (Some ex_X, ex_world)"
    by blast+
  from b c wf have b3:
    "\<exists>t' w'. to_c_contig column_major (Some ex_F) ''X'' True ex_world = (Some t', w')
         \<and> next_obj ex_world \<le> obj_id t' \<and> obj_id t' \<noteq> obj_id ex_F
         \<and> is_c_contiguous t'
         \<and> shape t' = shape ex_F \<and> dtype t' = dtype ex_F \<and> device t' = device ex_F
         \<and> (\<forall>idx \<in> set (indices (shape ex_F)). read w' t' idx = read ex_world ex_F idx)"
    by blast
  from a1 n a2 c wf b3 show ?thesis by (intro conjI)
qed

section \<open>Properties of predict\<close>

text \<open>
  C5. On a model whose \<^verbatim>\<open>alpha_\<close> or \<^verbatim>\<open>ny_points_\<close> is unset, \<^verbatim>\<open>predict\<close> raises the
  RuntimeError "Falkon has not been trained", and the model and the state are the ones
  it was called with. This holds for every \<^verbatim>\<open>_predict\<close>, also one that would change the
  model, so \<^verbatim>\<open>_predict\<close> is not reached.
\<close>

theorem predict_not_fitted:
  "alpha' self = None \<or> ny_points' self = None \<Longrightarrow>
     predict keops f predict_method self X w = (Inl (RuntimeError NotTrained), self, w)"
  by (simp add: predict_def check_predict_inputs_def)

theorem predict_not_fitted_witness:
  "alpha' (ex_model (ex_opts False False)) = None
   \<and> predict (\<lambda>_ _ _. True) column_major ex_predict (ex_model (ex_opts False False))
        ex_X ex_world
      = (Inl (RuntimeError NotTrained), ex_model (ex_opts False False), ex_world)
   \<and> ny_points' (ex_model (ex_opts False False)\<lparr>alpha' := Some ex_Y\<rparr>) = None
   \<and> predict (\<lambda>_ _ _. True) column_major ex_predict
        (ex_model (ex_opts False False)\<lparr>alpha' := Some ex_Y\<rparr>) ex_X ex_world
      = (Inl (RuntimeError NotTrained), ex_model (ex_opts False False)\<lparr>alpha' := Some ex_Y\<rparr>,
         ex_world)"
proof -
  let ?m = "ex_model (ex_opts False False)"
  have h1: "alpha' ?m = None" by (simp add: ex_defs)
  have h2: "ny_points' (?m\<lparr>alpha' := Some ex_Y\<rparr>) = None" by (simp add: ex_defs)
  from h1 have d1: "alpha' ?m = None \<or> ny_points' ?m = None" by simp
  from h2 have d2: "alpha' (?m\<lparr>alpha' := Some ex_Y\<rparr>) = None
      \<or> ny_points' (?m\<lparr>alpha' := Some ex_Y\<rparr>) = None" by simp
  note p1 = predict_not_fitted [OF d1, of "\<lambda>_ _ _. True" column_major ex_predict ex_X ex_world]
  note p2 = predict_not_fitted [OF d2, of "\<lambda>_ _ _. True" column_major ex_predict ex_X ex_world]
  from h1 p1 h2 p2 show ?thesis by (intro conjI)
qed

text \<open>On a fitted model, without KeOps, \<^verbatim>\<open>predict\<close> is the call of \<^verbatim>\<open>_predict\<close> on the
  centers and the coefficients.\<close>

lemma predict_fitted:
  "alpha' self = Some a \<Longrightarrow> ny_points' self = Some ny \<Longrightarrow> \<not> keops X ny (options self) \<Longrightarrow>
     predict keops f predict_method self X w = predict_method self X (Some ny) (Some a) w"
  by (simp add: predict_def check_predict_inputs_def)

section \<open>Properties of fit-input validation\<close>

text \<open>
  C6, as amended. If \<open>X\<close> and \<open>Y\<close> have different row counts, the validation raises the
  ValueError on the number of samples. If their element types differ, their row counts
  are equal and \<open>Y\<close> has one or two dimensions, it raises the TypeError. If their element
  types differ, the validation fails in every case. The result is an error value: no
  tensors and no state come back.
\<close>

theorem check_fit_inputs_errors:
  "(\<forall>n m xs ys. shape X = n # xs \<and> shape Y = m # ys \<and> n \<noteq> m \<longrightarrow>
      check_fit_inputs keops f self X Y Xts Yts w = Inl (ValueError (SamplesMismatch n m)))
   \<and> (\<forall>n xs ys. shape X = n # xs \<and> shape Y = n # ys \<and> length ys \<le> 1
                 \<and> dtype X \<noteq> dtype Y \<longrightarrow>
      check_fit_inputs keops f self X Y Xts Yts w = Inl (TypeError DtypeMismatch))
   \<and> (dtype X \<noteq> dtype Y \<longrightarrow>
      (\<exists>e. check_fit_inputs keops f self X Y Xts Yts w = Inl e))"
proof -
  have A: "\<forall>n m xs ys. shape X = n # xs \<and> shape Y = m # ys \<and> n \<noteq> m \<longrightarrow>
      check_fit_inputs keops f self X Y Xts Yts w = Inl (ValueError (SamplesMismatch n m))"
    by (simp add: check_fit_inputs_def size_dim_def)
  have B: "\<forall>n xs ys. shape X = n # xs \<and> shape Y = n # ys \<and> length ys \<le> 1
                 \<and> dtype X \<noteq> dtype Y \<longrightarrow>
      check_fit_inputs keops f self X Y Xts Yts w = Inl (TypeError DtypeMismatch)"
  proof (intro allI impI)
    fix n xs ys
    assume a: "shape X = n # xs \<and> shape Y = n # ys \<and> length ys \<le> 1 \<and> dtype X \<noteq> dtype Y"
    then consider "ys = []" | k where "ys = [k]"
      by (cases ys) auto
    then show "check_fit_inputs keops f self X Y Xts Yts w = Inl (TypeError DtypeMismatch)"
    proof cases
      case 1
      with a show ?thesis
        by (simp add: check_fit_inputs_def size_dim_def dim_def unsqueeze_def alloc_obj_def
            check_same_dtype_def)
    next
      case 2
      with a show ?thesis
        by (simp add: check_fit_inputs_def size_dim_def dim_def check_same_dtype_def)
    qed
  qed
  have C: "dtype X \<noteq> dtype Y \<longrightarrow>
      (\<exists>e. check_fit_inputs keops f self X Y Xts Yts w = Inl e)"
  proof
    assume a: "dtype X \<noteq> dtype Y"
    show "\<exists>e. check_fit_inputs keops f self X Y Xts Yts w = Inl e"
    proof (cases "check_fit_inputs keops f self X Y Xts Yts w")
      case (Inl e)
      then show ?thesis by blast
    next
      case (Inr r)
      obtain X' Y' Xts' Yts' w' where r: "r = ((X', Y', Xts', Yts'), w')"
        by (metis prod.exhaust)
      from Inr r have acc:
        "check_fit_inputs keops f self X Y Xts Yts w = Inr ((X', Y', Xts', Yts'), w')"
        by simp
      from acc obtain Y1 w1 where
        y1: "(if dim Y = 1 then unsqueeze Y 1 w else (Y, w)) = (Y1, w1)"
        and dt: "check_same_dtype X Y1"
        by (rule fit_inputs_accepted) blast
      from y1 have "dtype Y1 = dtype Y"
        by (auto simp: unsqueeze_def split: if_splits)
      with dt a show ?thesis by (simp add: check_same_dtype_def)
    qed
  qed
  from A B C show ?thesis by (intro conjI)
qed

theorem check_fit_inputs_errors_witness:
  "shape ex_X = 2 # [5] \<and> shape (ex_Y\<lparr>shape := [3]\<rparr>) = 3 # [] \<and> (2::nat) \<noteq> 3
   \<and> check_fit_inputs (\<lambda>_ _ _. True) column_major (ex_model (ex_opts False False))
        ex_X (ex_Y\<lparr>shape := [3]\<rparr>) None None ex_world
      = Inl (ValueError (SamplesMismatch 2 3))
   \<and> shape (ex_Y\<lparr>dtype := Float64\<rparr>) = 2 # [] \<and> length ([]::nat list) \<le> 1
   \<and> dtype ex_X \<noteq> dtype (ex_Y\<lparr>dtype := Float64\<rparr>)
   \<and> check_fit_inputs (\<lambda>_ _ _. True) column_major (ex_model (ex_opts False False))
        ex_X (ex_Y\<lparr>dtype := Float64\<rparr>) None None ex_world
      = Inl (TypeError DtypeMismatch)"
proof -
  let ?m = "ex_model (ex_opts False False)"
  have sx: "shape ex_X = 2 # [5]" by (simp add: ex_defs)
  have s3: "shape (ex_Y\<lparr>shape := [3]\<rparr>) = 3 # []" by simp
  have ne: "(2::nat) \<noteq> 3" by simp
  have s2: "shape (ex_Y\<lparr>dtype := Float64\<rparr>) = 2 # []" by (simp add: ex_defs)
  have le: "length ([]::nat list) \<le> 1" by simp
  have dt: "dtype ex_X \<noteq> dtype (ex_Y\<lparr>dtype := Float64\<rparr>)" by (simp add: ex_defs)
  note a = check_fit_inputs_errors [where X = ex_X and Y = "ex_Y\<lparr>shape := [3]\<rparr>"
      and keops = "\<lambda>_ _ _. True" and f = column_major and self = ?m and Xts = None
      and Yts = None and w = ex_world]
  note b = check_fit_inputs_errors [where X = ex_X and Y = "ex_Y\<lparr>dtype := Float64\<rparr>"
      and keops = "\<lambda>_ _ _. True" and f = column_major and self = ?m and Xts = None
      and Yts = None and w = ex_world]
  from a sx s3 ne have r1:
    "check_fit_inputs (\<lambda>_ _ _. True) column_major ?m ex_X (ex_Y\<lparr>shape := [3]\<rparr>) None None
       ex_world = Inl (ValueError (SamplesMismatch 2 3))"
    by blast
  from b sx s2 le dt have r2:
    "check_fit_inputs (\<lambda>_ _ _. True) column_major ?m ex_X (ex_Y\<lparr>dtype := Float64\<rparr>) None None
       ex_world = Inl (TypeError DtypeMismatch)"
    by blast
  from sx s3 ne r1 s2 le dt r2 show ?thesis by (intro conjI)
qed

text \<open>
  C6 as stated fails: with element types \<^verbatim>\<open>float32\<close> and \<^verbatim>\<open>float64\<close> and row counts 2
  and 3, the error raised is the ValueError on the number of samples, not a TypeError.
\<close>

theorem check_fit_inputs_type_error_counterexample:
  "dtype ex_X \<noteq> dtype (ex_Y\<lparr>shape := [3], dtype := Float64\<rparr>)
   \<and> check_fit_inputs (\<lambda>_ _ _. True) column_major (ex_model (ex_opts False False))
        ex_X (ex_Y\<lparr>shape := [3], dtype := Float64\<rparr>) None None ex_world
      = Inl (ValueError (SamplesMismatch 2 3))"
  by code_simp

text \<open>
  C7, as amended. For a target \<open>Y\<close> of the state: when the validation accepts, the
  returned \<open>Y\<close> has rank 2; a 1-dimensional \<open>Y\<close> of length \<open>n\<close> comes back with shape
  \<open>[n, 1]\<close> and the same elements; a 2-dimensional \<open>Y\<close> keeps its shape and its elements,
  it is the identical object unless KeOps is used and \<open>Y\<close> is strictly F-contiguous, and
  in that case it is a new, C-contiguous tensor object with that shape and those elements
  (over a new storage or over the storage of \<open>Y\<close>). A \<open>Y\<close> of rank 3 or more is rejected
  with a ValueError (when \<open>X\<close> has rows).
\<close>

theorem check_fit_inputs_target:
  assumes wf: "wf_tensor w Y"
  shows "(\<forall>X' Y' Xts' Yts' w'.
      check_fit_inputs keops f self X Y Xts Yts w = Inr ((X', Y', Xts', Yts'), w') \<longrightarrow>
        dim Y' = 2
        \<and> (\<forall>n. shape Y = [n] \<longrightarrow>
              shape Y' = [n, 1] \<and> (\<forall>i < n. read w' Y' [i, 0] = read w Y [i]))
        \<and> (dim Y = 2 \<longrightarrow>
              shape Y' = shape Y
              \<and> (\<forall>idx \<in> set (indices (shape Y)). read w' Y' idx = read w Y idx)
              \<and> (\<not> (keops X X (options self) \<and> f Y True) \<longrightarrow> Y' = Y)
              \<and> (keops X X (options self) \<and> f Y True \<longrightarrow>
                    is_c_contiguous Y' \<and> obj_id Y < obj_id Y')))
   \<and> (\<forall>n m xs ys. shape X = n # xs \<and> shape Y = m # ys \<and> 2 \<le> length ys \<longrightarrow>
        check_fit_inputs keops f self X Y Xts Yts w =
          Inl (ValueError (if n \<noteq> m then SamplesMismatch n m else YDims (Suc (length ys)))))"
proof -
  have A: "\<forall>X' Y' Xts' Yts' w'.
      check_fit_inputs keops f self X Y Xts Yts w = Inr ((X', Y', Xts', Yts'), w') \<longrightarrow>
        dim Y' = 2
        \<and> (\<forall>n. shape Y = [n] \<longrightarrow>
              shape Y' = [n, 1] \<and> (\<forall>i < n. read w' Y' [i, 0] = read w Y [i]))
        \<and> (dim Y = 2 \<longrightarrow>
              shape Y' = shape Y
              \<and> (\<forall>idx \<in> set (indices (shape Y)). read w' Y' idx = read w Y idx)
              \<and> (\<not> (keops X X (options self) \<and> f Y True) \<longrightarrow> Y' = Y)
              \<and> (keops X X (options self) \<and> f Y True \<longrightarrow>
                    is_c_contiguous Y' \<and> obj_id Y < obj_id Y'))"
  proof (intro allI impI)
    fix X' Y' Xts' Yts' w'
    assume acc: "check_fit_inputs keops f self X Y Xts Yts w = Inr ((X', Y', Xts', Yts'), w')"
    note t = fit_target_accepted [OF acc wf]
    note c = fit_target_copied [OF acc wf]
    have 1: "dim Y' = 2" by (rule t(1))
    have 2: "\<forall>n. shape Y = [n] \<longrightarrow>
              shape Y' = [n, 1] \<and> (\<forall>i < n. read w' Y' [i, 0] = read w Y [i])"
      using t(2) t(3) by blast
    have 3: "dim Y = 2 \<longrightarrow>
              shape Y' = shape Y
              \<and> (\<forall>idx \<in> set (indices (shape Y)). read w' Y' idx = read w Y idx)
              \<and> (\<not> (keops X X (options self) \<and> f Y True) \<longrightarrow> Y' = Y)
              \<and> (keops X X (options self) \<and> f Y True \<longrightarrow>
                    is_c_contiguous Y' \<and> obj_id Y < obj_id Y')"
      using t(4) t(5) t(6) c by blast
    from 1 2 3 show "dim Y' = 2
        \<and> (\<forall>n. shape Y = [n] \<longrightarrow>
              shape Y' = [n, 1] \<and> (\<forall>i < n. read w' Y' [i, 0] = read w Y [i]))
        \<and> (dim Y = 2 \<longrightarrow>
              shape Y' = shape Y
              \<and> (\<forall>idx \<in> set (indices (shape Y)). read w' Y' idx = read w Y idx)
              \<and> (\<not> (keops X X (options self) \<and> f Y True) \<longrightarrow> Y' = Y)
              \<and> (keops X X (options self) \<and> f Y True \<longrightarrow>
                    is_c_contiguous Y' \<and> obj_id Y < obj_id Y'))"
      by (intro conjI)
  qed
  have B: "\<forall>n m xs ys. shape X = n # xs \<and> shape Y = m # ys \<and> 2 \<le> length ys \<longrightarrow>
        check_fit_inputs keops f self X Y Xts Yts w =
          Inl (ValueError (if n \<noteq> m then SamplesMismatch n m else YDims (Suc (length ys))))"
    using fit_target_high_rank by blast
  from A B show ?thesis by (intro conjI)
qed

theorem check_fit_inputs_target_witness:
  "wf_tensor ex_world ex_Y
   \<and> check_fit_inputs (\<lambda>_ _ _. False) column_major (ex_model (ex_opts False False))
        ex_X ex_Y None None ex_world
      = Inr ((ex_X, ex_Y_promoted, None, None), alloc_obj ex_world)
   \<and> dim ex_Y_promoted = 2 \<and> shape ex_Y_promoted = [2, 1]
   \<and> read (alloc_obj ex_world) ex_Y_promoted [1, 0] = read ex_world ex_Y [1]
   \<and> wf_tensor ex_world ex_F
   \<and> check_fit_inputs (\<lambda>_ _ _. True) column_major (ex_model (ex_opts False False))
        ex_X ex_F None None ex_world
      = Inr ((ex_X, ex_F_copy, None, None), ex_world_copy)
   \<and> shape ex_F_copy = shape ex_F
   \<and> read ex_world_copy ex_F_copy [1, 0] = read ex_world ex_F [1, 0]
   \<and> is_c_contiguous ex_F_copy \<and> obj_id ex_F < obj_id ex_F_copy
   \<and> check_fit_inputs (\<lambda>_ _ _. False) column_major (ex_model (ex_opts False False))
        ex_X (ex_Y\<lparr>shape := [2, 1, 1], stride := [1, 1, 1]\<rparr>) None None ex_world
      = Inl (ValueError (YDims 3))"
proof -
  let ?m = "ex_model (ex_opts False False)"
  have wfY: "wf_tensor ex_world ex_Y" by code_simp
  have wfF: "wf_tensor ex_world ex_F" by code_simp
  have wf3: "wf_tensor ex_world (ex_Y\<lparr>shape := [2, 1, 1], stride := [1, 1, 1]\<rparr>)"
    by code_simp
  have run1: "check_fit_inputs (\<lambda>_ _ _. False) column_major ?m ex_X ex_Y None None ex_world
      = Inr ((ex_X, ex_Y_promoted, None, None), alloc_obj ex_world)"
    by code_simp
  have run2: "check_fit_inputs (\<lambda>_ _ _. True) column_major ?m ex_X ex_F None None ex_world
      = Inr ((ex_X, ex_F_copy, None, None), ex_world_copy)"
    by code_simp
  have sY: "shape ex_Y = [2]" and dF: "dim ex_F = 2" and fF: "column_major ex_F True"
    and i10: "[1, 0] \<in> set (indices (shape ex_F))"
    and sX: "shape ex_X = 2 # [5]"
    and s3: "shape (ex_Y\<lparr>shape := [2, 1, 1], stride := [1, 1, 1]\<rparr>) = 2 # [1, 1]"
    by code_simp+
  note a = check_fit_inputs_target [OF wfY, where keops = "\<lambda>_ _ _. False"
      and f = column_major and self = ?m and X = ex_X and Xts = None and Yts = None]
  note b = check_fit_inputs_target [OF wfF, where keops = "\<lambda>_ _ _. True"
      and f = column_major and self = ?m and X = ex_X and Xts = None and Yts = None]
  note c = check_fit_inputs_target [OF wf3, where keops = "\<lambda>_ _ _. False"
      and f = column_major and self = ?m and X = ex_X and Xts = None and Yts = None]
  from a run1 sY have a1: "dim ex_Y_promoted = 2" and a2: "shape ex_Y_promoted = [2, 1]"
    and a3: "\<forall>i < 2. read (alloc_obj ex_world) ex_Y_promoted [i, 0] = read ex_world ex_Y [i]"
    by blast+
  from a3 have a4: "read (alloc_obj ex_world) ex_Y_promoted [1, 0] = read ex_world ex_Y [1]"
    by simp
  from b run2 dF fF have b1: "shape ex_F_copy = shape ex_F"
    and b2: "\<forall>idx \<in> set (indices (shape ex_F)).
               read ex_world_copy ex_F_copy idx = read ex_world ex_F idx"
    and b3: "is_c_contiguous ex_F_copy" and b4: "obj_id ex_F < obj_id ex_F_copy"
    by blast+
  from b2 i10 have b5: "read ex_world_copy ex_F_copy [1, 0] = read ex_world ex_F [1, 0]"
    by blast
  have l: "2 \<le> length [1, 1::nat]" by simp
  from c have cB: "\<forall>n m xs ys. shape ex_X = n # xs
        \<and> shape (ex_Y\<lparr>shape := [2, 1, 1], stride := [1, 1, 1]\<rparr>) = m # ys \<and> 2 \<le> length ys \<longrightarrow>
        check_fit_inputs (\<lambda>_ _ _. False) column_major ?m ex_X
          (ex_Y\<lparr>shape := [2, 1, 1], stride := [1, 1, 1]\<rparr>) None None ex_world =
          Inl (ValueError (if n \<noteq> m then SamplesMismatch n m else YDims (Suc (length ys))))"
    by blast
  from cB sX s3 l have c1:
    "check_fit_inputs (\<lambda>_ _ _. False) column_major ?m ex_X
        (ex_Y\<lparr>shape := [2, 1, 1], stride := [1, 1, 1]\<rparr>) None None ex_world
      = Inl (ValueError (if (2::nat) \<noteq> 2 then SamplesMismatch 2 2
                         else YDims (Suc (length [1, 1::nat]))))"
    by blast
  then have c2:
    "check_fit_inputs (\<lambda>_ _ _. False) column_major ?m ex_X
        (ex_Y\<lparr>shape := [2, 1, 1], stride := [1, 1, 1]\<rparr>) None None ex_world
      = Inl (ValueError (YDims 3))"
    by simp
  from wfY run1 a1 a2 a4 wfF run2 b1 b5 b3 b4 c2 show ?thesis by (intro conjI)
qed

text \<open>
  C7 as stated fails: with KeOps in use, the 2-dimensional column-major 2 by 2 target is
  not passed through unchanged but replaced by another tensor object, here with row-major
  strides over a new storage.
\<close>

theorem check_fit_inputs_target_counterexample:
  "dim ex_F = 2
   \<and> check_fit_inputs (\<lambda>_ _ _. True) column_major (ex_model (ex_opts False False))
        ex_X ex_F None None ex_world
      = Inr ((ex_X, ex_F_copy, None, None), ex_world_copy)
   \<and> ex_F_copy \<noteq> ex_F"
  by code_simp

text \<open>
  The new object need not come with a new storage: a single-column target of shape
  \<open>[2, 1]\<close> with strides \<open>[1, 2]\<close> is column-major and C-contiguous at once, so
  \<^verbatim>\<open>np.asarray(a, order="C")\<close> returns its argument, and the tensor that comes back is a
  new object over the storage of the input; no buffer is added to the state.
\<close>

lemma fit_target_shared_storage:
  "column_major ex_Y_col True \<and> is_c_contiguous ex_Y_col
   \<and> check_fit_inputs (\<lambda>_ _ _. True) column_major (ex_model (ex_opts False False))
        ex_X ex_Y_col None None ex_world
      = Inr ((ex_X, ex_Y_col\<lparr>obj_id := 5\<rparr>, None, None),
             ex_world\<lparr>next_obj := 6, warnings := [(''Y'', [1, 2])]\<rparr>)
   \<and> storage (ex_Y_col\<lparr>obj_id := 5\<rparr>) = storage ex_Y_col"
  by code_simp

section \<open>Properties of center selection\<close>

text \<open>
  C8. When the center selection is given by name: the name \<^verbatim>\<open>uniform\<close> in any letter
  case with \<open>M\<close> unset raises a ValueError; any other name raises a ValueError. A selector
  object is returned as it is, whatever \<open>M\<close> is.
\<close>

theorem init_center_selection_cases:
  "(lower s = ''uniform'' \<and> M' self = None \<longrightarrow>
      init_center_selection self (Name s) = Inl (ValueError MMissing))
   \<and> (lower s \<noteq> ''uniform'' \<longrightarrow>
      init_center_selection self (Name s) = Inl (ValueError (InvalidCenterSelection s)))
   \<and> init_center_selection self (Selector c) = Inr c"
  by (simp add: init_center_selection_def)

theorem init_center_selection_cases_witness:
  "lower ''UniForm'' = ''uniform''
   \<and> M' (ex_model (ex_opts False False)\<lparr>M' := None\<rparr>) = None
   \<and> init_center_selection (ex_model (ex_opts False False)\<lparr>M' := None\<rparr>)
        (Name ''UniForm'' :: (nat, nat) center_selection_arg) = Inl (ValueError MMissing)
   \<and> lower ''kmeans'' \<noteq> ''uniform''
   \<and> init_center_selection (ex_model (ex_opts False False)\<lparr>M' := None\<rparr>)
        (Name ''kmeans'' :: (nat, nat) center_selection_arg)
        = Inl (ValueError (InvalidCenterSelection ''kmeans''))
   \<and> init_center_selection (ex_model (ex_opts False False)\<lparr>M' := None\<rparr>)
        (Selector (CustomSelector (7::nat))) = Inr (CustomSelector 7)"
proof -
  let ?m = "ex_model (ex_opts False False)\<lparr>M' := None\<rparr>"
  have u: "lower ''UniForm'' = ''uniform''" by code_simp
  have k: "lower ''kmeans'' \<noteq> ''uniform''" by code_simp
  have m: "M' ?m = None" by simp
  note a = init_center_selection_cases [where s = "''UniForm''" and self = ?m
      and c = "CustomSelector (7::nat) :: (nat, nat) CenterSelector"]
  note b = init_center_selection_cases [where s = "''kmeans''" and self = ?m
      and c = "CustomSelector (7::nat) :: (nat, nat) CenterSelector"]
  from a u m have a1: "init_center_selection ?m
        (Name ''UniForm'' :: (nat, nat) center_selection_arg) = Inl (ValueError MMissing)"
    and a3: "init_center_selection ?m (Selector (CustomSelector (7::nat)))
        = (Inr (CustomSelector 7) :: error + (nat, nat) CenterSelector)"
    by blast+
  from b k have b2: "init_center_selection ?m
        (Name ''kmeans'' :: (nat, nat) center_selection_arg)
        = Inl (ValueError (InvalidCenterSelection ''kmeans''))"
    by blast
  from u m a1 k b2 a3 show ?thesis by (intro conjI)
qed

section \<open>Properties of the kernel evaluation's output buffer\<close>

text \<open>
  C4. A kernel evaluation (the kernel itself, \<^verbatim>\<open>mmv\<close> or \<^verbatim>\<open>dmmv\<close>) called with an output
  buffer returns that buffer: the same object with the same data pointer, and neither an
  object nor a storage is allocated.
\<close>

theorem kernel_call_returns_out:
  "kernel_call compute kop tensors (Some out) w = (r, w') \<Longrightarrow>
     r = out \<and> data_ptr r = data_ptr out
     \<and> next_obj w' = next_obj w \<and> length (bufs w') = length (bufs w)"
  by (auto simp: kernel_call_def Let_def split: prod.splits)

theorem kernel_call_returns_out_witness:
  "kernel_call ex_compute KernelDmmv [ex_X, ex_centers] (Some ex_F) ex_world
     = (ex_F, ex_world\<lparr>bufs := (bufs ex_world)[2 := [5, 7, 6, 8]]\<rparr>)
   \<and> data_ptr ex_F = (2, 0)
   \<and> next_obj (ex_world\<lparr>bufs := (bufs ex_world)[2 := [5, 7, 6, 8]]\<rparr>) = next_obj ex_world
   \<and> length (bufs (ex_world\<lparr>bufs := (bufs ex_world)[2 := [5, 7, 6, 8]]\<rparr>))
        = length (bufs ex_world)"
proof -
  have run: "kernel_call ex_compute KernelDmmv [ex_X, ex_centers] (Some ex_F) ex_world
     = (ex_F, ex_world\<lparr>bufs := (bufs ex_world)[2 := [5, 7, 6, 8]]\<rparr>)"
    by code_simp
  have p: "data_ptr ex_F = (2, 0)"
    by code_simp
  from kernel_call_returns_out [OF run] run p show ?thesis by simp
qed

text \<open>On such a call, the second check of \<^verbatim>\<open>_run_test\<close> (the output pointers) cannot
  fail.\<close>

lemma run_test_output_check:
  "run_test mc close (\<lambda>ts out opt. kernel_call compute kop ts out) exp tensors (Some out)
       rtol opt w \<noteq> Inl (AssertionError OutputNotUsed)"
  by (auto simp: run_test_def kernel_call_def Let_def split: prod.splits)

end
